theory Spec2Isabelle
  imports Complex_Main
begin

section \<open>JavaScript values used by the study manager\<close>

text \<open>
  A JavaScript number is an IEEE double: a finite value, NaN or one of the two
  infinities. Finite doubles are rationals and the comparisons \<open><\<close>, \<open>>=\<close>
  on them are exact, so a finite number is modelled by its rational value.
  Every comparison with NaN is false.
\<close>

datatype jsnum = Num rat | NaN | PosInfinity | NegInfinity

text \<open>\<open>x >= c\<close> and \<open>x < c\<close> for a finite right-hand side \<open>c\<close>.\<close>

fun js_ge :: "jsnum \<Rightarrow> rat \<Rightarrow> bool" where
  "js_ge (Num q) c = (c \<le> q)"
| "js_ge NaN c = False"
| "js_ge PosInfinity c = True"
| "js_ge NegInfinity c = False"

fun js_lt :: "jsnum \<Rightarrow> rat \<Rightarrow> bool" where
  "js_lt (Num q) c = (q < c)"
| "js_lt NaN c = False"
| "js_lt PosInfinity c = False"
| "js_lt NegInfinity c = True"

text \<open>
  The values a caller can pass where the manager checks \<open>typeof\<close> and truthiness.
  \<open>JObject\<close> stands for every object, array, function and symbol (all truthy, none of
  type string or number).
\<close>

datatype jsval =
    JUndefined
  | JNull
  | JBool bool
  | JNumber jsnum
  | JString string
  | JBigInt int
  | JObject

text \<open>\<open>typeof v === 'string'\<close> and \<open>typeof v === 'number'\<close>.\<close>

fun is_string :: "jsval \<Rightarrow> bool" where
  "is_string (JString s) = True"
| "is_string v = False"

fun is_number :: "jsval \<Rightarrow> bool" where
  "is_number (JNumber n) = True"
| "is_number v = False"

text \<open>\<open>!v\<close>: the falsy values are undefined, null, false, 0, NaN, the empty string and 0n.\<close>

fun falsy :: "jsval \<Rightarrow> bool" where
  "falsy JUndefined = True"
| "falsy JNull = True"
| "falsy (JBool b) = (\<not> b)"
| "falsy (JNumber (Num q)) = (q = 0)"
| "falsy (JNumber NaN) = True"
| "falsy (JNumber PosInfinity) = False"
| "falsy (JNumber NegInfinity) = False"
| "falsy (JString s) = (s = [])"
| "falsy (JBigInt i) = (i = 0)"
| "falsy JObject = False"

text \<open>
  The result of reading a card: \<open>null\<close>, \<open>undefined\<close> (an array read at a property
  that is not an element index) or a flashcard.
\<close>

datatype 'c jsref = Null | Undefined | Ref 'c

text \<open>
  \<open>xs[x]\<close> for a finite number \<open>x\<close>: the element when \<open>x\<close> is an integer within
  the array, \<open>undefined\<close> otherwise.
\<close>

definition array_get :: "'c list \<Rightarrow> rat \<Rightarrow> 'c jsref" where
  "array_get xs x =
     (if of_int \<lfloor>x\<rfloor> = x \<and> 0 \<le> x \<and> x < of_nat (length xs)
      then Ref (xs ! nat \<lfloor>x\<rfloor>) else Undefined)"

section \<open>StudySession\<close>

text \<open>
  The fields of class \<open>StudySession\<close>. Times are \<open>Date\<close> values, modelled by their
  millisecond count; every operation that evaluates \<open>new Date()\<close> takes that reading
  as its argument \<open>now\<close>. \<open>currentIndex\<close> is a JavaScript number that is always
  finite (it starts at 0, is assigned only numbers in \<open>[0, length)\<close>, and is moved by
  one); \<open>currentIndex++\<close> and \<open>currentIndex--\<close> are exact on integers, which is
  all the theorems on stepping rely on. \<open>reviewedCards\<close> is a \<open>Set\<close> of the index
  values that were added to it.
\<close>

record 'c StudySession =
  deckId :: string
  flashcards :: "'c list"
  currentIndex :: rat
  startTime :: int
  endTime :: "int option"
  isComplete :: bool
  reviewedCards :: "rat set"

text \<open>The constructor; \<open>[...flashcards]\<close> gives the session a list of its own.\<close>

definition new_StudySession :: "string \<Rightarrow> 'c list \<Rightarrow> int \<Rightarrow> 'c StudySession" where
  "new_StudySession d cards now =
     \<lparr> deckId = d, flashcards = cards, currentIndex = 0, startTime = now,
       endTime = None, isComplete = False, reviewedCards = {} \<rparr>"

definition getCurrentFlashcard :: "'c StudySession \<Rightarrow> 'c jsref" where
  "getCurrentFlashcard s =
     (if isComplete s \<or> of_nat (length (flashcards s)) \<le> currentIndex s then Null
      else array_get (flashcards s) (currentIndex s))"

text \<open>The loop \<open>for (i = 0; i < length; i++) reviewedCards.add(i)\<close>.\<close>

fun mark_all :: "nat \<Rightarrow> nat \<Rightarrow> rat set \<Rightarrow> rat set" where
  "mark_all i 0 R = R"
| "mark_all i (Suc n) R = mark_all (Suc i) n (insert (of_nat i) R)"

definition completeSession :: "int \<Rightarrow> 'c StudySession \<Rightarrow> 'c StudySession" where
  "completeSession now s =
     s\<lparr> isComplete := True, endTime := Some now,
        reviewedCards := mark_all 0 (length (flashcards s)) (reviewedCards s) \<rparr>"

definition nextFlashcard :: "int \<Rightarrow> 'c StudySession \<Rightarrow> bool \<times> 'c StudySession" where
  "nextFlashcard now s =
     (if isComplete s then (False, s)
      else
        let s1 = (if currentIndex s < of_nat (length (flashcards s))
                  then s\<lparr> reviewedCards := insert (currentIndex s) (reviewedCards s) \<rparr>
                  else s);
            s2 = s1\<lparr> currentIndex := currentIndex s1 + 1 \<rparr>
        in if of_nat (length (flashcards s2)) \<le> currentIndex s2
           then (False, completeSession now s2)
           else (True, s2))"

definition previousFlashcard :: "'c StudySession \<Rightarrow> bool \<times> 'c StudySession" where
  "previousFlashcard s =
     (if 0 < currentIndex s then (True, s\<lparr> currentIndex := currentIndex s - 1 \<rparr>)
      else (False, s))"

text \<open>
  The guard is the source's; a number that passes it is finite, so the last case of the
  assignment is never taken (lemma \<open>jump_guard_finite\<close>).
\<close>

definition jumpToFlashcard :: "jsnum \<Rightarrow> 'c StudySession \<Rightarrow> bool \<times> 'c StudySession" where
  "jumpToFlashcard index s =
     (if js_ge index 0 \<and> js_lt index (of_nat (length (flashcards s))) \<and> \<not> isComplete s
      then (case index of Num q \<Rightarrow> (True, s\<lparr> currentIndex := q \<rparr>) | _ \<Rightarrow> (False, s))
      else (False, s))"

text \<open>\<open>Math.round(x)\<close> is \<open>\<lfloor>x + 1/2\<rfloor>\<close>.\<close>

definition math_round :: "rat \<Rightarrow> int" where
  "math_round x = \<lfloor>x + 1 / 2\<rfloor>"

record Progress =
  p_currentIndex :: rat
  p_totalCards :: nat
  reviewedCount :: nat
  percentComplete :: int
  p_isComplete :: bool
  hasNext :: bool
  hasPrevious :: bool

text \<open>
  The quotient \<open>size / length\<close> is computed exactly here and in doubles by the source;
  the two agree when the quotient is 1, which is the case the theorems below use.
\<close>

definition getProgress :: "'c StudySession \<Rightarrow> Progress" where
  "getProgress s =
     \<lparr> p_currentIndex = currentIndex s,
       p_totalCards = length (flashcards s),
       reviewedCount = card (reviewedCards s),
       percentComplete =
         (if 0 < length (flashcards s)
          then math_round (of_nat (card (reviewedCards s)) / of_nat (length (flashcards s)) * 100)
          else 100),
       p_isComplete = isComplete s,
       hasNext = (currentIndex s < of_nat (length (flashcards s)) - 1),
       hasPrevious = (0 < currentIndex s) \<rparr>"

record Summary =
  s_deckId :: string
  s_totalCards :: nat
  s_reviewedCards :: nat
  duration :: int
  s_startTime :: int
  s_endTime :: "int option"
  s_isComplete :: bool

text \<open>
  \<open>Math.round(ms / 1000)\<close> of a whole number of milliseconds is \<open>(ms + 500) div 1000\<close>.
\<close>

definition getSessionSummary :: "int \<Rightarrow> 'c StudySession \<Rightarrow> Summary" where
  "getSessionSummary now s =
     \<lparr> s_deckId = deckId s,
       s_totalCards = length (flashcards s),
       s_reviewedCards = card (reviewedCards s),
       duration =
         (case endTime s of
            Some e \<Rightarrow> (e - startTime s + 500) div 1000
          | None \<Rightarrow> (now - startTime s + 500) div 1000),
       s_startTime = startTime s,
       s_endTime = endTime s,
       s_isComplete = isComplete s \<rparr>"

definition reset :: "int \<Rightarrow> 'c StudySession \<Rightarrow> 'c StudySession" where
  "reset now s =
     s\<lparr> currentIndex := 0, isComplete := False, endTime := None,
        reviewedCards := {}, startTime := now \<rparr>"

text \<open>Calling \<open>nextFlashcard()\<close> once per clock reading of the list, in order.\<close>

fun nextFlashcard_calls :: "int list \<Rightarrow> 'c StudySession \<Rightarrow> 'c StudySession" where
  "nextFlashcard_calls [] s = s"
| "nextFlashcard_calls (t # ts) s = nextFlashcard_calls ts (snd (nextFlashcard t s))"

text \<open>
  The operations that change a session, each with the clock reading it may take, and a
  sequence of them applied in order.
\<close>

datatype session_op =
    OpNext int
  | OpPrevious
  | OpJumpTo jsnum
  | OpComplete int
  | OpReset int

fun apply_op :: "session_op \<Rightarrow> 'c StudySession \<Rightarrow> 'c StudySession" where
  "apply_op (OpNext now) s = snd (nextFlashcard now s)"
| "apply_op OpPrevious s = snd (previousFlashcard s)"
| "apply_op (OpJumpTo i) s = snd (jumpToFlashcard i s)"
| "apply_op (OpComplete now) s = completeSession now s"
| "apply_op (OpReset now) s = reset now s"

fun run_ops :: "session_op list \<Rightarrow> 'c StudySession \<Rightarrow> 'c StudySession" where
  "run_ops [] s = s"
| "run_ops (x # xs) s = run_ops xs (apply_op x s)"

fun is_reset :: "session_op \<Rightarrow> bool" where
  "is_reset (OpReset now) = True"
| "is_reset x = False"

section \<open>StudyManager\<close>

text \<open>
  The data service is a collaborator the manager only calls: \<open>loadDeck(id)\<close> returns a
  deck or \<open>null\<close>, \<open>loadFlashcardsForDeck(id)\<close> returns an array of cards. Either call
  may throw; \<open>Inl msg\<close> is an exception with that message.

  The manager's methods are declared \<open>async\<close> and contain no \<open>await\<close>: each runs to its
  end when called, and the value modelled is the one its promise resolves to. Each body is
  wrapped in \<open>try ... catch\<close>; only the data service can throw inside one, so the catch
  clause appears in \<open>startStudySession\<close> alone.
\<close>

record ('c, 'd) DataService =
  loadDeck :: "string \<Rightarrow> string + 'd option"
  loadFlashcardsForDeck :: "string \<Rightarrow> string + 'c list"

text \<open>
  The \<open>DataService\<close> class of the repository, for a storage that is available and holds
  the given deck and flashcard records: \<open>loadDeck\<close> finds the first deck with the id
  (\<open>null\<close> when there is none), \<open>loadFlashcardsForDeck\<close> filters the flashcards by their
  \<open>deckId\<close> into a new array. Neither throws: both catch their own failures.
\<close>

record Flashcard =
  f_id :: string
  f_question :: string
  f_answer :: string
  f_deckId :: string

record Deck =
  d_id :: string
  d_name :: string
  d_description :: string
  d_flashcardIds :: "string list"

definition storage_DataService :: "Deck list \<Rightarrow> Flashcard list \<Rightarrow> (Flashcard, Deck) DataService" where
  "storage_DataService decks cards =
     \<lparr> loadDeck = (\<lambda>id. Inr (find (\<lambda>d. d_id d = id) decks)),
       loadFlashcardsForDeck = (\<lambda>deck_id. Inr (filter (\<lambda>f. f_deckId f = deck_id) cards)) \<rparr>"

text \<open>Sample records, for stating concrete instances.\<close>

definition sample_card :: "string \<Rightarrow> string \<Rightarrow> Flashcard" where
  "sample_card i d = \<lparr> f_id = i, f_question = ''Q-'' @ i, f_answer = ''A-'' @ i, f_deckId = d \<rparr>"

definition sample_deck :: "string \<Rightarrow> Deck" where
  "sample_deck d = \<lparr> d_id = d, d_name = ''Deck '' @ d, d_description = [], d_flashcardIds = [] \<rparr>"

record ('c, 'd) StudyManager =
  dataService :: "('c, 'd) DataService"
  currentSession :: "'c StudySession option"

text \<open>
  The result object \<open>{success, ..., errors}\<close>: the payload on success, the list of
  messages on failure.
\<close>

datatype 'a result = Success 'a | Failure "string list"

record NextResult =
  r_hasNext :: bool
  r_isComplete :: bool

definition new_StudyManager :: "('c, 'd) DataService \<Rightarrow> ('c, 'd) StudyManager" where
  "new_StudyManager ds = \<lparr> dataService = ds, currentSession = None \<rparr>"

text \<open>
  \<open>startStudySession(deckId)\<close>. After the guard \<open>!deckId || typeof deckId !== 'string'\<close>
  the id is a non-empty string, so the last case is never taken. An exception of the data
  service is caught and reported.
\<close>

definition startStudySession ::
  "jsval \<Rightarrow> int \<Rightarrow> ('c, 'd) StudyManager \<Rightarrow> 'c StudySession result \<times> ('c, 'd) StudyManager" where
  "startStudySession deck_id now m =
     (if falsy deck_id \<or> \<not> is_string deck_id
      then (Failure [''Deck ID is required and must be a string''], m)
      else case deck_id of
        JString d \<Rightarrow>
          (case loadDeck (dataService m) d of
             Inl msg \<Rightarrow> (Failure [''Failed to start study session: '' @ msg], m)
           | Inr None \<Rightarrow> (Failure [''Deck not found''], m)
           | Inr (Some deck) \<Rightarrow>
               (case loadFlashcardsForDeck (dataService m) d of
                  Inl msg \<Rightarrow> (Failure [''Failed to start study session: '' @ msg], m)
                | Inr cards \<Rightarrow>
                    if length cards = 0
                    then (Failure [''Deck contains no flashcards to study''], m)
                    else let s = new_StudySession d cards now
                         in (Success s, m\<lparr> currentSession := Some s \<rparr>)))
      | _ \<Rightarrow> (Failure [''Deck ID is required and must be a string''], m))"

definition getCurrentSession :: "('c, 'd) StudyManager \<Rightarrow> 'c StudySession option" where
  "getCurrentSession m = currentSession m"

definition StudyManager_nextFlashcard ::
  "int \<Rightarrow> ('c, 'd) StudyManager \<Rightarrow> NextResult result \<times> ('c, 'd) StudyManager" where
  "StudyManager_nextFlashcard now m =
     (case currentSession m of
        None \<Rightarrow> (Failure [''No active study session''], m)
      | Some s \<Rightarrow>
          let (hasNext, s') = nextFlashcard now s
          in (Success \<lparr> r_hasNext = hasNext, r_isComplete = isComplete s' \<rparr>,
              m\<lparr> currentSession := Some s' \<rparr>))"

definition StudyManager_previousFlashcard ::
  "('c, 'd) StudyManager \<Rightarrow> bool result \<times> ('c, 'd) StudyManager" where
  "StudyManager_previousFlashcard m =
     (case currentSession m of
        None \<Rightarrow> (Failure [''No active study session''], m)
      | Some s \<Rightarrow>
          let (hasPrevious, s') = previousFlashcard s
          in (Success hasPrevious, m\<lparr> currentSession := Some s' \<rparr>))"

text \<open>
  \<open>jumpToFlashcard(index)\<close> of the manager. In the guard
  \<open>typeof index !== 'number' || index < 0\<close> the comparison is evaluated for numbers only.
\<close>

definition StudyManager_jumpToFlashcard ::
  "jsval \<Rightarrow> ('c, 'd) StudyManager \<Rightarrow> unit result \<times> ('c, 'd) StudyManager" where
  "StudyManager_jumpToFlashcard index m =
     (case currentSession m of
        None \<Rightarrow> (Failure [''No active study session''], m)
      | Some s \<Rightarrow>
          (case index of
             JNumber n \<Rightarrow>
               if js_lt n 0
               then (Failure [''Index must be a non-negative number''], m)
               else
                 let (success, s') = jumpToFlashcard n s
                 in if \<not> success
                    then (Failure [''Invalid flashcard index or session is complete''],
                          m\<lparr> currentSession := Some s' \<rparr>)
                    else (Success (), m\<lparr> currentSession := Some s' \<rparr>)
           | _ \<Rightarrow> (Failure [''Index must be a non-negative number''], m)))"

text \<open>\<open>!flashcard\<close> holds for \<open>null\<close> and \<open>undefined\<close>.\<close>

definition StudyManager_getCurrentFlashcard :: "('c, 'd) StudyManager \<Rightarrow> 'c result" where
  "StudyManager_getCurrentFlashcard m =
     (case currentSession m of
        None \<Rightarrow> Failure [''No active study session'']
      | Some s \<Rightarrow>
          (case getCurrentFlashcard s of
             Ref c \<Rightarrow> Success c
           | _ \<Rightarrow> Failure [''No current flashcard (session may be complete)'']))"

definition getSessionProgress :: "('c, 'd) StudyManager \<Rightarrow> Progress result" where
  "getSessionProgress m =
     (case currentSession m of
        None \<Rightarrow> Failure [''No active study session'']
      | Some s \<Rightarrow> Success (getProgress s))"

definition StudyManager_completeSession ::
  "int \<Rightarrow> ('c, 'd) StudyManager \<Rightarrow> Summary result \<times> ('c, 'd) StudyManager" where
  "StudyManager_completeSession now m =
     (case currentSession m of
        None \<Rightarrow> (Failure [''No active study session''], m)
      | Some s \<Rightarrow>
          let s' = (if \<not> isComplete s then completeSession now s else s);
              summary = getSessionSummary now s'
          in (Success summary, m\<lparr> currentSession := None \<rparr>))"

definition resetSession ::
  "int \<Rightarrow> ('c, 'd) StudyManager \<Rightarrow> unit result \<times> ('c, 'd) StudyManager" where
  "resetSession now m =
     (case currentSession m of
        None \<Rightarrow> (Failure [''No active study session''], m)
      | Some s \<Rightarrow> (Success (), m\<lparr> currentSession := Some (reset now s) \<rparr>))"

definition endSession ::
  "int \<Rightarrow> ('c, 'd) StudyManager \<Rightarrow> Summary result \<times> ('c, 'd) StudyManager" where
  "endSession now m =
     (case currentSession m of
        None \<Rightarrow> (Failure [''No active study session''], m)
      | Some s \<Rightarrow> (Success (getSessionSummary now s), m\<lparr> currentSession := None \<rparr>))"

definition hasActiveSession :: "('c, 'd) StudyManager \<Rightarrow> bool" where
  "hasActiveSession m = (currentSession m \<noteq> None)"

definition StudyManager_getSessionSummary :: "int \<Rightarrow> ('c, 'd) StudyManager \<Rightarrow> Summary result" where
  "StudyManager_getSessionSummary now m =
     (case currentSession m of
        None \<Rightarrow> Failure [''No active study session'']
      | Some s \<Rightarrow> Success (getSessionSummary now s))"

section \<open>The constructor's copy, with arrays as shared objects\<close>

text \<open>
  Arrays are objects that several holders can reference and change in place. Here the
  store is the list of all arrays, an array's reference is its position, and an element
  is a card (itself a reference, which the copy shares). The session object keeps the
  reference of its array in \<open>o_flashcards\<close>.
\<close>

type_synonym 'c arrays = "'c list list"

record session_obj =
  o_deckId :: string
  o_flashcards :: nat
  o_currentIndex :: rat
  o_startTime :: int
  o_endTime :: "int option"
  o_isComplete :: bool
  o_reviewedCards :: "rat set"

text \<open>
  \<open>new StudySession(deckId, flashcards)\<close> where \<open>flashcards\<close> is the array at reference
  \<open>a\<close>: \<open>[...flashcards]\<close> allocates a new array with the same elements. Spreading
  something that is not an array throws (\<open>None\<close>).
\<close>

definition new_StudySession_obj ::
  "string \<Rightarrow> nat \<Rightarrow> int \<Rightarrow> 'c arrays \<Rightarrow> (session_obj \<times> 'c arrays) option" where
  "new_StudySession_obj d a now h =
     (if a < length h
      then Some (\<lparr> o_deckId = d, o_flashcards = length h, o_currentIndex = 0,
                   o_startTime = now, o_endTime = None, o_isComplete = False,
                   o_reviewedCards = {} \<rparr>,
                 h @ [h ! a])
      else None)"

text \<open>Any change in place of the array at reference \<open>b\<close>: its contents become \<open>xs\<close>.\<close>

definition array_mutate :: "nat \<Rightarrow> 'c list \<Rightarrow> 'c arrays \<Rightarrow> 'c arrays" where
  "array_mutate b xs h = h[b := xs]"

text \<open>The session an object denotes in a store, with its array read out.\<close>

definition session_of :: "'c arrays \<Rightarrow> session_obj \<Rightarrow> 'c StudySession" where
  "session_of h obj =
     \<lparr> deckId = o_deckId obj, flashcards = h ! o_flashcards obj,
       currentIndex = o_currentIndex obj, startTime = o_startTime obj,
       endTime = o_endTime obj, isComplete = o_isComplete obj,
       reviewedCards = o_reviewedCards obj \<rparr>"

section \<open>Basic facts\<close>

lemma mark_all_eq: "mark_all i n R = R \<union> of_nat ` {i..<i + n}"
proof (induction n arbitrary: i R)
  case 0
  show ?case by simp
next
  case (Suc n)
  have "{i..<i + Suc n} = insert i {Suc i..<Suc i + n}" by auto
  with Suc show ?case by auto
qed

lemma nextFlashcard_calls_append:
  "nextFlashcard_calls (ts @ us) s = nextFlashcard_calls us (nextFlashcard_calls ts s)"
  by (induction ts arbitrary: s) auto

lemma nextFlashcard_active:
  assumes "\<not> isComplete s" and "currentIndex s + 1 < of_nat (length (flashcards s))"
  shows "nextFlashcard now s =
           (True, s\<lparr> reviewedCards := insert (currentIndex s) (reviewedCards s),
                      currentIndex := currentIndex s + 1 \<rparr>)"
  using assms by (simp add: nextFlashcard_def Let_def)

lemma nextFlashcard_last:
  assumes "\<not> isComplete s" and "currentIndex s < of_nat (length (flashcards s))"
    and "of_nat (length (flashcards s)) \<le> currentIndex s + 1"
  shows "nextFlashcard now s =
           (False, completeSession now
                     (s\<lparr> reviewedCards := insert (currentIndex s) (reviewedCards s),
                         currentIndex := currentIndex s + 1 \<rparr>))"
  using assms by (simp add: nextFlashcard_def Let_def)

lemma nextFlashcard_complete: "isComplete s \<Longrightarrow> nextFlashcard now s = (False, s)"
  by (simp add: nextFlashcard_def)

lemma calls_before_end:
  assumes "length ts < length cards"
  shows "nextFlashcard_calls ts (new_StudySession d cards t0) =
           (new_StudySession d cards t0)
             \<lparr> currentIndex := of_nat (length ts),
               reviewedCards := of_nat ` {0..<length ts} \<rparr>"
  using assms
proof (induction ts rule: rev_induct)
  case Nil
  show ?case by (simp add: new_StudySession_def)
next
  case (snoc t ts)
  let ?s = "(new_StudySession d cards t0)
             \<lparr> currentIndex := of_nat (length ts),
               reviewedCards := of_nat ` {0..<length ts} \<rparr>"
  from snoc have st: "nextFlashcard_calls ts (new_StudySession d cards t0) = ?s" by simp
  from snoc.prems have lt: "Suc (length ts) < length cards" by simp
  have "rat_of_nat (length ts) + 1 < of_nat (length cards)"
    using lt by (metis of_nat_Suc of_nat_less_iff add.commute)
  then have "nextFlashcard t ?s =
      (True, ?s\<lparr> reviewedCards := insert (currentIndex ?s) (reviewedCards ?s),
                 currentIndex := currentIndex ?s + 1 \<rparr>)"
    by (intro nextFlashcard_active) (simp_all add: new_StudySession_def)
  moreover have "insert (rat_of_nat (length ts)) (of_nat ` {0..<length ts}) = of_nat ` {0..<Suc (length ts)}"
    by (simp add: atLeastLessThanSuc)
  ultimately have "nextFlashcard t ?s =
      (True, (new_StudySession d cards t0)
             \<lparr> currentIndex := of_nat (length (ts @ [t])),
               reviewedCards := of_nat ` {0..<length (ts @ [t])} \<rparr>)"
    by (simp add: new_StudySession_def add.commute)
  then show ?case
    unfolding nextFlashcard_calls_append st by simp
qed


lemma calls_at_end:
  assumes "cards \<noteq> []" and "length ts = length cards"
  shows "nextFlashcard_calls ts (new_StudySession d cards t0) =
           (new_StudySession d cards t0)
             \<lparr> currentIndex := of_nat (length cards),
               reviewedCards := of_nat ` {0..<length cards},
               isComplete := True, endTime := Some (last ts) \<rparr>"
proof -
  from assms have ne: "ts \<noteq> []" by auto
  then have split: "ts = butlast ts @ [last ts]" by simp
  let ?n = "length (butlast ts)"
  have n: "Suc ?n = length cards" using assms ne by simp
  let ?s = "(new_StudySession d cards t0)
             \<lparr> currentIndex := of_nat ?n, reviewedCards := of_nat ` {0..<?n} \<rparr>"
  have st: "nextFlashcard_calls (butlast ts) (new_StudySession d cards t0) = ?s"
    using n by (intro calls_before_end) simp
  have idx: "rat_of_nat ?n + 1 = of_nat (length cards)"
    using n by (metis of_nat_Suc add.commute)
  have step: "nextFlashcard (last ts) ?s =
      (False, completeSession (last ts)
                (?s\<lparr> reviewedCards := insert (currentIndex ?s) (reviewedCards ?s),
                     currentIndex := currentIndex ?s + 1 \<rparr>))"
    using n idx by (intro nextFlashcard_last) (simp_all add: new_StudySession_def)
  have marks: "insert (rat_of_nat ?n) (of_nat ` {0..<?n}) \<union> of_nat ` {0..<length cards}
                 = of_nat ` {0..<length cards}"
    using n by auto
  have "nextFlashcard_calls ts (new_StudySession d cards t0) =
          snd (nextFlashcard (last ts) ?s)"
    by (subst split) (simp only: nextFlashcard_calls_append st nextFlashcard_calls.simps)
  also have "\<dots> = (new_StudySession d cards t0)
             \<lparr> currentIndex := of_nat (length cards),
               reviewedCards := of_nat ` {0..<length cards},
               isComplete := True, endTime := Some (last ts) \<rparr>"
    unfolding step
    using idx marks by (simp add: completeSession_def mark_all_eq new_StudySession_def)
  finally show ?thesis .
qed

section \<open>Advancing through a session\<close>

text \<open>
  Claim C1. For a session built over a list of N \<ge> 1 cards, N calls of
  \<open>nextFlashcard()\<close> complete the session on the N-th call and on no earlier one: before
  the (k+1)-th call the session is not complete and its cursor is k; that call marks index k as
  reviewed, moves the cursor to k+1 and returns true exactly when a card remains. On any
  session that is not complete and whose cursor is an index j within the cards, a call marks
  j, moves the cursor to j+1 and completes the session exactly when j was the last index; on
  a complete session a call changes nothing and returns false.
\<close>

theorem advance_completes_on_Nth_call:
  assumes "cards \<noteq> []" and "length ts = length cards"
  shows "(\<forall>k < length cards.
            \<not> isComplete (nextFlashcard_calls (take k ts) (new_StudySession d cards t0))
          \<and> currentIndex (nextFlashcard_calls (take k ts) (new_StudySession d cards t0)) = of_nat k
          \<and> of_nat k \<in> reviewedCards (nextFlashcard_calls (take (Suc k) ts) (new_StudySession d cards t0))
          \<and> currentIndex (nextFlashcard_calls (take (Suc k) ts) (new_StudySession d cards t0)) = of_nat (Suc k)
          \<and> fst (nextFlashcard (ts ! k) (nextFlashcard_calls (take k ts) (new_StudySession d cards t0)))
              = (Suc k < length cards))
       \<and> isComplete (nextFlashcard_calls ts (new_StudySession d cards t0))
       \<and> (\<not> isComplete s \<and> currentIndex s = of_nat j \<and> j < length (flashcards s) \<longrightarrow>
            currentIndex (snd (nextFlashcard now s)) = of_nat (Suc j)
          \<and> of_nat j \<in> reviewedCards (snd (nextFlashcard now s))
          \<and> fst (nextFlashcard now s) = (Suc j < length (flashcards s))
          \<and> isComplete (snd (nextFlashcard now s)) = (Suc j = length (flashcards s)))
       \<and> (isComplete s \<longrightarrow> nextFlashcard now s = (False, s))"
proof (intro conjI allI impI)
  fix k assume k: "k < length cards"
  let ?s0 = "new_StudySession d cards t0"
  have len: "length (take k ts) = k" using k assms by simp
  have sk: "nextFlashcard_calls (take k ts) ?s0 =
              ?s0\<lparr> currentIndex := of_nat k, reviewedCards := of_nat ` {0..<k} \<rparr>"
    using calls_before_end [of "take k ts" cards d t0] k len by simp
  show "\<not> isComplete (nextFlashcard_calls (take k ts) ?s0)"
    unfolding sk by (simp add: new_StudySession_def)
  show "currentIndex (nextFlashcard_calls (take k ts) ?s0) = of_nat k"
    unfolding sk by simp
  have sSk: "nextFlashcard_calls (take (Suc k) ts) ?s0 =
              ?s0\<lparr> currentIndex := of_nat (Suc k), reviewedCards := of_nat ` {0..<Suc k},
                    isComplete := (Suc k = length cards),
                    endTime := (if Suc k = length cards then Some (last ts) else None) \<rparr>"
  proof (cases "Suc k < length cards")
    case True
    then have "length (take (Suc k) ts) = Suc k" using assms by simp
    with True calls_before_end [of "take (Suc k) ts" cards d t0]
    show ?thesis by (simp add: new_StudySession_def)
  next
    case False
    with k have e: "Suc k = length cards" by simp
    then have "take (Suc k) ts = ts" using assms by simp
    with e calls_at_end [OF assms, of d t0] show ?thesis by simp
  qed
  show "of_nat k \<in> reviewedCards (nextFlashcard_calls (take (Suc k) ts) ?s0)"
    unfolding sSk by simp
  show "currentIndex (nextFlashcard_calls (take (Suc k) ts) ?s0) = of_nat (Suc k)"
    unfolding sSk by simp
  have cmp: "(rat_of_nat (length cards) \<le> of_nat k + 1) = (\<not> Suc k < length cards)"
    by (metis of_nat_Suc of_nat_le_iff add.commute not_less)
  show "fst (nextFlashcard (ts ! k) (nextFlashcard_calls (take k ts) ?s0)) = (Suc k < length cards)"
    unfolding sk using k cmp by (simp add: nextFlashcard_def Let_def new_StudySession_def)
next
  show "isComplete (nextFlashcard_calls ts (new_StudySession d cards t0))"
    using calls_at_end [OF assms, of d t0] by simp
next
  assume a: "\<not> isComplete s \<and> currentIndex s = of_nat j \<and> j < length (flashcards s)"
  have cmp: "(rat_of_nat (length (flashcards s)) \<le> of_nat j + 1) = (\<not> Suc j < length (flashcards s))"
    by (metis of_nat_Suc of_nat_le_iff add.commute not_less)
  from a show "currentIndex (snd (nextFlashcard now s)) = of_nat (Suc j)"
    by (simp add: nextFlashcard_def Let_def completeSession_def add.commute)
  from a show "of_nat j \<in> reviewedCards (snd (nextFlashcard now s))"
    by (simp add: nextFlashcard_def Let_def completeSession_def mark_all_eq)
  from a cmp show "fst (nextFlashcard now s) = (Suc j < length (flashcards s))"
    by (simp add: nextFlashcard_def Let_def)
  from a cmp show "isComplete (snd (nextFlashcard now s)) = (Suc j = length (flashcards s))"
    by (auto simp add: nextFlashcard_def Let_def completeSession_def)
next
  assume "isComplete s"
  then show "nextFlashcard now s = (False, s)" by (rule nextFlashcard_complete)
qed

theorem advance_completes_on_Nth_call_witness:
  "[''q1'', ''q2'', ''q3''] \<noteq> [] \<and> length [10, 20, 30 :: int] = length [''q1'', ''q2'', ''q3'']
   \<and> \<not> isComplete (nextFlashcard_calls [10, 20] (new_StudySession ''d'' [''q1'', ''q2'', ''q3''] 0))
   \<and> isComplete (nextFlashcard_calls [10, 20, 30] (new_StudySession ''d'' [''q1'', ''q2'', ''q3''] 0))
   \<and> nextFlashcard 40 (new_StudySession ''d'' [''q1'', ''q2'', ''q3''] 0)
       = (True, (new_StudySession ''d'' [''q1'', ''q2'', ''q3''] 0)
                  \<lparr> reviewedCards := {0}, currentIndex := 1 \<rparr>)
   \<and> nextFlashcard 40
        (nextFlashcard_calls [10, 20, 30] (new_StudySession ''d'' [''q1'', ''q2'', ''q3''] 0))
       = (False, nextFlashcard_calls [10, 20, 30] (new_StudySession ''d'' [''q1'', ''q2'', ''q3''] 0))"
  using advance_completes_on_Nth_call
    [of "[''q1'', ''q2'', ''q3'']" "[10, 20, 30]" "''d''" 0
        "new_StudySession ''d'' [''q1'', ''q2'', ''q3''] 0" 0 40]
    advance_completes_on_Nth_call
    [of "[''q1'', ''q2'', ''q3'']" "[10, 20, 30]" "''d''" 0
        "nextFlashcard_calls [10, 20, 30] (new_StudySession ''d'' [''q1'', ''q2'', ''q3''] 0)" 0 40]
  by (simp add: nextFlashcard_def new_StudySession_def completeSession_def Let_def)

section \<open>Forced completion\<close>

lemma flashcards_nextFlashcard: "flashcards (snd (nextFlashcard now s)) = flashcards s"
  by (simp add: nextFlashcard_def Let_def completeSession_def)

lemma nextFlashcard_in_range:
  assumes "currentIndex s = of_nat k"
    and "reviewedCards s \<subseteq> of_nat ` {0..<length (flashcards s)}"
  shows "(\<exists>j. currentIndex (snd (nextFlashcard now s)) = of_nat j)
       \<and> reviewedCards (snd (nextFlashcard now s)) \<subseteq> of_nat ` {0..<length (flashcards s)}"
proof -
  have nat_step: "rat_of_nat k + 1 = of_nat (Suc k)" by simp
  have mark: "rat_of_nat k < of_nat (length (flashcards s)) \<Longrightarrow>
                rat_of_nat k \<in> of_nat ` {0..<length (flashcards s)}"
    by simp
  show ?thesis
    using assms mark
    by (auto simp add: nextFlashcard_def Let_def completeSession_def mark_all_eq nat_step
             simp del: of_nat_Suc intro: exI [of _ "Suc k"] exI [of _ k])
qed

lemma calls_in_range:
  assumes "currentIndex s = of_nat k"
    and "reviewedCards s \<subseteq> of_nat ` {0..<length (flashcards s)}"
  shows "flashcards (nextFlashcard_calls ts s) = flashcards s
       \<and> reviewedCards (nextFlashcard_calls ts s) \<subseteq> of_nat ` {0..<length (flashcards s)}"
  using assms
proof (induction ts arbitrary: s k)
  case Nil
  then show ?case by simp
next
  case (Cons t ts)
  from nextFlashcard_in_range [OF Cons.prems, of t]
  obtain j where j: "currentIndex (snd (nextFlashcard t s)) = of_nat j"
    and r: "reviewedCards (snd (nextFlashcard t s)) \<subseteq> of_nat ` {0..<length (flashcards s)}"
    by blast
  from Cons.IH [of "snd (nextFlashcard t s)" j] j r
  show ?case by (simp add: flashcards_nextFlashcard)
qed

lemma card_all_indices: "card (rat_of_nat ` {0..<n}) = n"
  by (simp add: card_image)

lemma math_round_100: "math_round 100 = 100"
  unfolding math_round_def by (rule floor_unique) simp_all

lemma completeSession_progress:
  assumes "reviewedCards s \<subseteq> of_nat ` {0..<length (flashcards s)}"
  shows "percentComplete (getProgress (completeSession now s)) = 100
       \<and> p_isComplete (getProgress (completeSession now s))
       \<and> reviewedCount (getProgress (completeSession now s)) = length (flashcards s)"
proof -
  have "reviewedCards (completeSession now s) = of_nat ` {0..<length (flashcards s)}"
    using assms by (auto simp add: completeSession_def mark_all_eq)
  then show ?thesis
    by (simp add: getProgress_def card_all_indices math_round_100 completeSession_def)
qed

text \<open>
  Claim C2, as stated: \<open>completeSession()\<close> is idempotent and sets the end time if it is
  unset. The source assigns \<open>endTime = new Date()\<close> on every call, so a second call at a
  later clock reading replaces the end time the first call recorded.
\<close>

theorem completeSession_restamps_endTime_counterexample:
  "completeSession 2000 (completeSession 1000 (new_StudySession ''d'' [''q''] 0))
     \<noteq> completeSession 1000 (new_StudySession ''d'' [''q''] 0)
   \<and> endTime (completeSession 1000 (new_StudySession ''d'' [''q''] 0)) = Some 1000
   \<and> endTime (completeSession 2000 (completeSession 1000 (new_StudySession ''d'' [''q''] 0)))
       = Some 2000"
  by (simp add: completeSession_def new_StudySession_def)

text \<open>
  Claim C2, amended. \<open>completeSession()\<close> makes the session complete whatever the cursor
  is and leaves the cursor alone, sets the end time to the current clock reading on every
  call, and marks every index 0..N-1 as reviewed; a second call changes nothing but the end
  time. After it, for a session built by the constructor and advanced any number of times,
  the progress reports \<open>isComplete\<close> true and \<open>percentComplete\<close> 100.
\<close>

theorem completeSession_forces_completion:
  "isComplete (completeSession now s)
   \<and> endTime (completeSession now s) = Some now
   \<and> of_nat ` {0..<length (flashcards s)} \<subseteq> reviewedCards (completeSession now s)
   \<and> currentIndex (completeSession now s) = currentIndex s
   \<and> completeSession now' (completeSession now s) = (completeSession now s)\<lparr> endTime := Some now' \<rparr>
   \<and> p_isComplete (getProgress
        (completeSession now (nextFlashcard_calls ts (new_StudySession d cards t0))))
   \<and> percentComplete (getProgress
        (completeSession now (nextFlashcard_calls ts (new_StudySession d cards t0)))) = 100"
proof -
  let ?s0 = "new_StudySession d cards t0"
  have "currentIndex ?s0 = of_nat 0" and "reviewedCards ?s0 \<subseteq> of_nat ` {0..<length (flashcards ?s0)}"
    by (simp_all add: new_StudySession_def)
  from calls_in_range [OF this, of ts]
  have "reviewedCards (nextFlashcard_calls ts ?s0)
          \<subseteq> of_nat ` {0..<length (flashcards (nextFlashcard_calls ts ?s0))}"
    by simp
  from completeSession_progress [OF this, of now]
  have prog: "p_isComplete (getProgress (completeSession now (nextFlashcard_calls ts ?s0)))"
    "percentComplete (getProgress (completeSession now (nextFlashcard_calls ts ?s0))) = 100"
    by simp_all
  have idem: "completeSession now' (completeSession now s)
                = (completeSession now s)\<lparr> endTime := Some now' \<rparr>"
    by (simp add: completeSession_def mark_all_eq Un_assoc)
  have basic: "isComplete (completeSession now s)" "endTime (completeSession now s) = Some now"
    "of_nat ` {0..<length (flashcards s)} \<subseteq> reviewedCards (completeSession now s)"
    "currentIndex (completeSession now s) = currentIndex s"
    by (simp_all add: completeSession_def mark_all_eq)
  from basic idem prog show ?thesis by blast
qed

section \<open>Jumping within a session\<close>

lemma jump_guard_finite:
  "js_ge i 0 \<and> js_lt i c \<longleftrightarrow> (\<exists>q. i = Num q \<and> 0 \<le> q \<and> q < c)"
  by (cases i) auto

lemma array_get_nat: "k < length xs \<Longrightarrow> array_get xs (of_nat k) = Ref (xs ! k)"
  by (simp add: array_get_def)

text \<open>
  Claim C4. \<open>jumpToFlashcard(i)\<close> of a session succeeds exactly when the session is not
  complete and \<open>0 \<le> i < N\<close>; for such an index k it sets the cursor to k, so the current
  card is \<open>cards[k]\<close>. When it fails (the index -1, the index N, any index on a complete
  session) the session is unchanged. It never changes \<open>isComplete\<close>, also when the target is
  the last index.
\<close>

theorem jumpToFlashcard_valid_index_only:
  "(fst (jumpToFlashcard i s)
      = (\<not> isComplete s \<and> (\<exists>q. i = Num q \<and> 0 \<le> q \<and> q < of_nat (length (flashcards s)))))
   \<and> (\<not> isComplete s \<and> k < length (flashcards s) \<longrightarrow>
        jumpToFlashcard (Num (of_nat k)) s = (True, s\<lparr> currentIndex := of_nat k \<rparr>)
      \<and> getCurrentFlashcard (snd (jumpToFlashcard (Num (of_nat k)) s)) = Ref (flashcards s ! k))
   \<and> (\<not> fst (jumpToFlashcard i s) \<longrightarrow> snd (jumpToFlashcard i s) = s)
   \<and> jumpToFlashcard (Num (- 1)) s = (False, s)
   \<and> jumpToFlashcard (Num (of_nat (length (flashcards s)))) s = (False, s)
   \<and> (isComplete s \<longrightarrow> jumpToFlashcard i s = (False, s))
   \<and> isComplete (snd (jumpToFlashcard i s)) = isComplete s"
proof -
  have exact: "fst (jumpToFlashcard i s)
      = (\<not> isComplete s \<and> (\<exists>q. i = Num q \<and> 0 \<le> q \<and> q < of_nat (length (flashcards s))))"
    by (cases i) (auto simp add: jumpToFlashcard_def)
  have ok: "\<not> isComplete s \<and> k < length (flashcards s) \<longrightarrow>
        jumpToFlashcard (Num (of_nat k)) s = (True, s\<lparr> currentIndex := of_nat k \<rparr>)
      \<and> getCurrentFlashcard (snd (jumpToFlashcard (Num (of_nat k)) s)) = Ref (flashcards s ! k)"
    by (simp add: jumpToFlashcard_def getCurrentFlashcard_def array_get_nat)
  have unchanged: "\<not> fst (jumpToFlashcard i s) \<longrightarrow> snd (jumpToFlashcard i s) = s"
    by (cases i) (auto simp add: jumpToFlashcard_def)
  have below: "jumpToFlashcard (Num (- 1)) s = (False, s)"
    by (simp add: jumpToFlashcard_def)
  have above: "jumpToFlashcard (Num (of_nat (length (flashcards s)))) s = (False, s)"
    by (simp add: jumpToFlashcard_def)
  have terminal: "isComplete s \<longrightarrow> jumpToFlashcard i s = (False, s)"
    by (simp add: jumpToFlashcard_def)
  have never: "isComplete (snd (jumpToFlashcard i s)) = isComplete s"
    by (cases i) (auto simp add: jumpToFlashcard_def)
  from exact ok unchanged below above terminal never show ?thesis by blast
qed

theorem jumpToFlashcard_valid_index_only_witness:
  "\<not> isComplete (new_StudySession ''d'' [''a'', ''b'', ''c''] 0)
   \<and> (2::nat) < length (flashcards (new_StudySession ''d'' [''a'', ''b'', ''c''] 0))
   \<and> getCurrentFlashcard (snd (jumpToFlashcard (Num 2) (new_StudySession ''d'' [''a'', ''b'', ''c''] 0)))
       = Ref ''c''
   \<and> \<not> isComplete (snd (jumpToFlashcard (Num 2) (new_StudySession ''d'' [''a'', ''b'', ''c''] 0)))
   \<and> \<not> fst (jumpToFlashcard (Num 3) (new_StudySession ''d'' [''a'', ''b'', ''c''] 0))
   \<and> snd (jumpToFlashcard (Num 3) (new_StudySession ''d'' [''a'', ''b'', ''c''] 0))
       = new_StudySession ''d'' [''a'', ''b'', ''c''] 0
   \<and> isComplete (completeSession 5 (new_StudySession ''d'' [''a'', ''b'', ''c''] 0))
   \<and> jumpToFlashcard (Num 1) (completeSession 5 (new_StudySession ''d'' [''a'', ''b'', ''c''] 0))
       = (False, completeSession 5 (new_StudySession ''d'' [''a'', ''b'', ''c''] 0))"
  using jumpToFlashcard_valid_index_only
          [of "Num 3" "new_StudySession ''d'' [''a'', ''b'', ''c''] 0" 2]
        jumpToFlashcard_valid_index_only
          [of "Num 1" "completeSession 5 (new_StudySession ''d'' [''a'', ''b'', ''c''] 0)" 0]
  by (simp add: new_StudySession_def completeSession_def jumpToFlashcard_def)

section \<open>Completion is left only by reset\<close>

lemma isComplete_apply_op: "isComplete s \<Longrightarrow> \<not> is_reset x \<Longrightarrow> isComplete (apply_op x s)"
proof (cases x)
  case (OpJumpTo i)
  assume "isComplete s"
  then show ?thesis using OpJumpTo by (simp add: jumpToFlashcard_def)
qed (simp_all add: nextFlashcard_def previousFlashcard_def completeSession_def)

lemma isComplete_run_ops:
  "isComplete s \<Longrightarrow> \<forall>x \<in> set ops. \<not> is_reset x \<Longrightarrow> isComplete (run_ops ops s)"
  by (induction ops arbitrary: s) (simp_all add: isComplete_apply_op)

text \<open>
  Claim C10. A complete session stays complete under every sequence of session operations
  that contains no \<open>reset()\<close>, and \<open>reset()\<close> makes it not complete. In particular
  \<open>previousFlashcard()\<close> on a complete session with cursor > 0 returns true and decrements
  the cursor, the session is still complete, and \<open>getCurrentFlashcard()\<close> still returns
  \<open>null\<close>.
\<close>

theorem isComplete_persists_until_reset:
  "(isComplete s \<and> (\<forall>x \<in> set ops. \<not> is_reset x) \<longrightarrow> isComplete (run_ops ops s))
   \<and> (isComplete s \<and> 0 < currentIndex s \<longrightarrow>
        fst (previousFlashcard s)
      \<and> isComplete (snd (previousFlashcard s))
      \<and> getCurrentFlashcard (snd (previousFlashcard s)) = Null)
   \<and> (isComplete s \<and> currentIndex s = of_nat (Suc j) \<longrightarrow>
        previousFlashcard s = (True, s\<lparr> currentIndex := of_nat j \<rparr>))
   \<and> \<not> isComplete (reset now s)"
proof -
  have "rat_of_nat (Suc j) - 1 = of_nat j" and "0 < rat_of_nat (Suc j)"
    by simp_all
  then show ?thesis
    by (simp add: isComplete_run_ops previousFlashcard_def getCurrentFlashcard_def reset_def
             del: of_nat_Suc)
qed

theorem isComplete_persists_until_reset_witness:
  "isComplete (completeSession 9 (new_StudySession ''d'' [''a'', ''b''] 0))
   \<and> filter is_reset [OpPrevious, OpJumpTo (Num 0), OpNext 10, OpComplete 11] = []
   \<and> isComplete (run_ops [OpPrevious, OpJumpTo (Num 0), OpNext 10, OpComplete 11]
                   (completeSession 9 (new_StudySession ''d'' [''a'', ''b''] 0)))
   \<and> isComplete (snd (nextFlashcard 2 (snd (nextFlashcard 1 (new_StudySession ''d'' [''a'', ''b''] 0)))))
   \<and> 0 < currentIndex (snd (nextFlashcard 2 (snd (nextFlashcard 1 (new_StudySession ''d'' [''a'', ''b''] 0)))))
   \<and> getCurrentFlashcard (snd (previousFlashcard
        (snd (nextFlashcard 2 (snd (nextFlashcard 1 (new_StudySession ''d'' [''a'', ''b''] 0)))))))
       = Null
   \<and> currentIndex (snd (previousFlashcard
        (snd (nextFlashcard 2 (snd (nextFlashcard 1 (new_StudySession ''d'' [''a'', ''b''] 0)))))))
       = 1"
  using isComplete_persists_until_reset
          [of "completeSession 9 (new_StudySession ''d'' [''a'', ''b''] 0)"
              "[OpPrevious, OpJumpTo (Num 0), OpNext 10, OpComplete 11]" 1 0]
        isComplete_persists_until_reset
          [of "snd (nextFlashcard 2 (snd (nextFlashcard 1 (new_StudySession ''d'' [''a'', ''b''] 0))))"
              "[]" 1 0]
  by (simp add: new_StudySession_def completeSession_def nextFlashcard_def previousFlashcard_def
        Let_def)

section \<open>Reset\<close>

lemma flashcards_apply_op: "flashcards (apply_op x s) = flashcards s"
proof (cases x)
  case (OpJumpTo i)
  then show ?thesis by (cases i) (simp_all add: jumpToFlashcard_def)
qed (simp_all add: nextFlashcard_def previousFlashcard_def completeSession_def reset_def Let_def)

lemma flashcards_run_ops: "flashcards (run_ops ops s) = flashcards s"
  by (induction ops arbitrary: s) (simp_all add: flashcards_apply_op)

text \<open>
  Claim C8. \<open>reset()\<close> after any sequence of session operations on a constructed session,
  complete or not, gives cursor 0, \<open>isComplete\<close> false, no end time and an empty reviewed
  set, over the same cards; so the reviewed count of the progress is 0 and, the card list
  being non-empty, the current card is \<open>cards[0]\<close>.
\<close>

theorem reset_restores_start:
  "currentIndex (reset now (run_ops ops (new_StudySession d cards t0))) = 0
   \<and> \<not> isComplete (reset now (run_ops ops (new_StudySession d cards t0)))
   \<and> endTime (reset now (run_ops ops (new_StudySession d cards t0))) = None
   \<and> reviewedCards (reset now (run_ops ops (new_StudySession d cards t0))) = {}
   \<and> startTime (reset now (run_ops ops (new_StudySession d cards t0))) = now
   \<and> flashcards (reset now (run_ops ops (new_StudySession d cards t0))) = cards
   \<and> reviewedCount (getProgress (reset now (run_ops ops (new_StudySession d cards t0)))) = 0
   \<and> (cards \<noteq> [] \<longrightarrow>
        getCurrentFlashcard (reset now (run_ops ops (new_StudySession d cards t0))) = Ref (cards ! 0))"
proof -
  let ?s = "run_ops ops (new_StudySession d cards t0)"
  have cards: "flashcards ?s = cards"
    by (simp add: flashcards_run_ops) (simp add: new_StudySession_def)
  have cur: "cards \<noteq> [] \<longrightarrow> getCurrentFlashcard (reset now ?s) = Ref (cards ! 0)"
    using cards array_get_nat [of 0 cards]
    by (simp add: getCurrentFlashcard_def reset_def)
  from cards cur show ?thesis
    by (simp add: reset_def getProgress_def)
qed

theorem reset_restores_start_witness:
  "[''a'', ''b''] \<noteq> []
   \<and> isComplete (run_ops [OpNext 1, OpJumpTo (Num 1), OpNext 2, OpNext 3, OpPrevious]
                   (new_StudySession ''d'' [''a'', ''b''] 0))
   \<and> getCurrentFlashcard
        (reset 4 (run_ops [OpNext 1, OpJumpTo (Num 1), OpNext 2, OpNext 3, OpPrevious]
                   (new_StudySession ''d'' [''a'', ''b''] 0))) = Ref ''a''"
  using reset_restores_start
          [of 4 "[OpNext 1, OpJumpTo (Num 1), OpNext 2, OpNext 3, OpPrevious]" "''d''"
              "[''a'', ''b'']" 0]
  by (simp add: new_StudySession_def completeSession_def nextFlashcard_def previousFlashcard_def
        jumpToFlashcard_def Let_def)

section \<open>The manager's index guard\<close>

text \<open>
  Claim C3, as stated: the manager's \<open>jumpToFlashcard(index)\<close> rejects every index that is
  not a non-negative integer and leaves the session unchanged. The guard of the source is
  \<open>typeof index !== 'number' || index < 0\<close>: the number 1.5 passes it, the session accepts it
  on a two-card deck, and the cursor becomes 1.5.
\<close>

theorem StudyManager_jumpToFlashcard_fraction_counterexample:
  "StudyManager_jumpToFlashcard (JNumber (Num (3 / 2)))
     \<lparr> dataService = storage_DataService [] [],
       currentSession = Some (new_StudySession ''d'' [sample_card ''a'' ''d'', sample_card ''b'' ''d''] 0) \<rparr>
   = (Success (),
      \<lparr> dataService = storage_DataService [] [],
        currentSession = Some ((new_StudySession ''d'' [sample_card ''a'' ''d'', sample_card ''b'' ''d''] 0)\<lparr> currentIndex := 3 / 2 \<rparr>) \<rparr>)
   \<and> (new_StudySession ''d'' [sample_card ''a'' ''d'', sample_card ''b'' ''d''] 0)\<lparr> currentIndex := 3 / 2 \<rparr>
       \<noteq> new_StudySession ''d'' [sample_card ''a'' ''d'', sample_card ''b'' ''d''] (0::int)"
  by (simp add: StudyManager_jumpToFlashcard_def jumpToFlashcard_def new_StudySession_def)

text \<open>
  Claim C3, amended. Without a current session the manager's \<open>jumpToFlashcard(index)\<close>
  fails with \<open>No active study session\<close>. With a session current, it fails
  with \<open>Index must be a non-negative number\<close> whenever the index is not of type number or is
  a number below 0, before the session is consulted, and the manager is unchanged. Every
  other number is handed to the session's \<open>jumpToFlashcard\<close>, whose answer decides between
  success and \<open>Invalid flashcard index or session is complete\<close>. Whenever the call fails the
  manager and its session are unchanged.
\<close>

theorem StudyManager_jumpToFlashcard_guard:
  "(currentSession m = None \<longrightarrow>
      StudyManager_jumpToFlashcard v m = (Failure [''No active study session''], m))
   \<and> (currentSession m = Some s \<and> (\<not> is_number v \<or> (\<exists>n. v = JNumber n \<and> js_lt n 0)) \<longrightarrow>
      StudyManager_jumpToFlashcard v m = (Failure [''Index must be a non-negative number''], m))
   \<and> (currentSession m = Some s \<and> \<not> js_lt n 0 \<longrightarrow>
        fst (StudyManager_jumpToFlashcard (JNumber n) m)
          = (if fst (jumpToFlashcard n s) then Success ()
             else Failure [''Invalid flashcard index or session is complete''])
      \<and> snd (StudyManager_jumpToFlashcard (JNumber n) m)
          = m\<lparr> currentSession := Some (snd (jumpToFlashcard n s)) \<rparr>)
   \<and> (currentSession m = Some s \<and> (\<exists>errs. fst (StudyManager_jumpToFlashcard v m) = Failure errs) \<longrightarrow>
        snd (StudyManager_jumpToFlashcard v m) = m)"
proof (intro conjI impI)
  assume "currentSession m = None"
  then show "StudyManager_jumpToFlashcard v m = (Failure [''No active study session''], m)"
    by (simp add: StudyManager_jumpToFlashcard_def)
next
  assume a: "currentSession m = Some s \<and> (\<not> is_number v \<or> (\<exists>n. v = JNumber n \<and> js_lt n 0))"
  then show "StudyManager_jumpToFlashcard v m = (Failure [''Index must be a non-negative number''], m)"
    by (cases v) (auto simp add: StudyManager_jumpToFlashcard_def)
next
  assume a: "currentSession m = Some s \<and> \<not> js_lt n 0"
  then show "fst (StudyManager_jumpToFlashcard (JNumber n) m)
          = (if fst (jumpToFlashcard n s) then Success ()
             else Failure [''Invalid flashcard index or session is complete''])"
    by (simp add: StudyManager_jumpToFlashcard_def split_def Let_def)
  from a show "snd (StudyManager_jumpToFlashcard (JNumber n) m)
          = m\<lparr> currentSession := Some (snd (jumpToFlashcard n s)) \<rparr>"
    by (simp add: StudyManager_jumpToFlashcard_def split_def Let_def)
next
  assume a: "currentSession m = Some s \<and> (\<exists>errs. fst (StudyManager_jumpToFlashcard v m) = Failure errs)"
  then have same: "m\<lparr> currentSession := Some s \<rparr> = m" by simp
  show "snd (StudyManager_jumpToFlashcard v m) = m"
  proof (cases v)
    case (JNumber n)
    show ?thesis
    proof (cases "js_lt n 0")
      case True
      with a JNumber show ?thesis by (simp add: StudyManager_jumpToFlashcard_def)
    next
      case False
      from a JNumber False have "\<not> fst (jumpToFlashcard n s)"
        by (auto simp add: StudyManager_jumpToFlashcard_def split_def Let_def split: if_splits)
      then have "snd (jumpToFlashcard n s) = s"
        by (cases n) (auto simp add: jumpToFlashcard_def)
      with a JNumber False same show ?thesis
        by (simp add: StudyManager_jumpToFlashcard_def split_def Let_def)
    qed
  qed (use a in \<open>simp_all add: StudyManager_jumpToFlashcard_def\<close>)
qed

theorem StudyManager_jumpToFlashcard_guard_witness:
  "StudyManager_jumpToFlashcard (JNumber (Num 0)) (new_StudyManager (storage_DataService [] []))
   = (Failure [''No active study session''], new_StudyManager (storage_DataService [] []))
   \<and> StudyManager_jumpToFlashcard (JString ''1'')
     \<lparr> dataService = storage_DataService [] [],
       currentSession = Some (new_StudySession ''d'' [sample_card ''a'' ''d'', sample_card ''b'' ''d''] 0) \<rparr>
   = (Failure [''Index must be a non-negative number''],
      \<lparr> dataService = storage_DataService [] [],
        currentSession = Some (new_StudySession ''d'' [sample_card ''a'' ''d'', sample_card ''b'' ''d''] 0) \<rparr>)
   \<and> fst (StudyManager_jumpToFlashcard (JNumber (Num 1))
       \<lparr> dataService = storage_DataService [] [],
         currentSession = Some (new_StudySession ''d'' [sample_card ''a'' ''d'', sample_card ''b'' ''d''] 0) \<rparr>) = Success ()
   \<and> fst (StudyManager_jumpToFlashcard (JNumber NaN)
       \<lparr> dataService = storage_DataService [] [],
         currentSession = Some (new_StudySession ''d'' [sample_card ''a'' ''d'', sample_card ''b'' ''d''] 0) \<rparr>)
      = Failure [''Invalid flashcard index or session is complete'']
   \<and> snd (StudyManager_jumpToFlashcard (JNumber NaN)
       \<lparr> dataService = storage_DataService [] [],
         currentSession = Some (new_StudySession ''d'' [sample_card ''a'' ''d'', sample_card ''b'' ''d''] 0) \<rparr>)
      = \<lparr> dataService = storage_DataService [] [],
         currentSession = Some (new_StudySession ''d'' [sample_card ''a'' ''d'', sample_card ''b'' ''d''] 0) \<rparr>"
  using StudyManager_jumpToFlashcard_guard
     [of "new_StudyManager (storage_DataService [] [])" "JNumber (Num 0)"
         "new_StudySession ''d'' [] 0" "Num 0"]
    StudyManager_jumpToFlashcard_guard
     [of "\<lparr> dataService = storage_DataService [] [],
             currentSession = Some (new_StudySession ''d'' [sample_card ''a'' ''d'', sample_card ''b'' ''d''] 0) \<rparr>"
         "JString ''1''"
         "new_StudySession ''d'' [sample_card ''a'' ''d'', sample_card ''b'' ''d''] 0" "Num 1"]
    StudyManager_jumpToFlashcard_guard
     [of "\<lparr> dataService = storage_DataService [] [],
             currentSession = Some (new_StudySession ''d'' [sample_card ''a'' ''d'', sample_card ''b'' ''d''] 0) \<rparr>"
         "JNumber NaN"
         "new_StudySession ''d'' [sample_card ''a'' ''d'', sample_card ''b'' ''d''] 0" NaN]
  by (simp add: jumpToFlashcard_def new_StudySession_def new_StudyManager_def)

section \<open>Starting a session\<close>

lemma startStudySession_failure_unchanged:
  "fst (startStudySession v now m) = Failure errs \<Longrightarrow> snd (startStudySession v now m) = m"
  by (auto simp add: startStudySession_def Let_def
           split: if_splits jsval.splits sum.splits option.splits)

lemma startStudySession_changed_success:
  "snd (startStudySession v now m) \<noteq> m \<Longrightarrow>
     \<exists>s. fst (startStudySession v now m) = Success s
       \<and> currentSession (snd (startStudySession v now m)) = Some s"
  by (auto simp add: startStudySession_def Let_def
           split: if_splits jsval.splits sum.splits option.splits)

text \<open>
  Claim C5. \<open>startStudySession(deckId)\<close> fails with
  \<open>Deck ID is required and must be a string\<close> when the id is falsy or not a string, with
  \<open>Deck not found\<close> when the data service has no deck for the id, and with
  \<open>Deck contains no flashcards to study\<close> when it has the deck and no cards for it. Every
  failing call returns the manager as it was, previous session included; the current
  session changes only on a successful start.
\<close>

theorem startStudySession_failures:
  "(falsy v \<or> \<not> is_string v \<longrightarrow>
      startStudySession v now m = (Failure [''Deck ID is required and must be a string''], m))
   \<and> (d \<noteq> [] \<and> loadDeck (dataService m) d = Inr None \<longrightarrow>
        startStudySession (JString d) now m = (Failure [''Deck not found''], m))
   \<and> (d' \<noteq> [] \<and> loadDeck (dataService m) d' = Inr (Some deck)
        \<and> loadFlashcardsForDeck (dataService m) d' = Inr [] \<longrightarrow>
        startStudySession (JString d') now m
          = (Failure [''Deck contains no flashcards to study''], m))
   \<and> ((\<exists>errs. fst (startStudySession w now m) = Failure errs) \<longrightarrow>
        snd (startStudySession w now m) = m)
   \<and> (currentSession (snd (startStudySession w now m)) \<noteq> currentSession m \<longrightarrow>
        (\<exists>s. fst (startStudySession w now m) = Success s))"
proof (intro conjI impI)
  assume "falsy v \<or> \<not> is_string v"
  then show "startStudySession v now m = (Failure [''Deck ID is required and must be a string''], m)"
    by (simp add: startStudySession_def)
next
  assume "d \<noteq> [] \<and> loadDeck (dataService m) d = Inr None"
  then show "startStudySession (JString d) now m = (Failure [''Deck not found''], m)"
    by (simp add: startStudySession_def)
next
  assume "d' \<noteq> [] \<and> loadDeck (dataService m) d' = Inr (Some deck)
        \<and> loadFlashcardsForDeck (dataService m) d' = Inr []"
  then show "startStudySession (JString d') now m
          = (Failure [''Deck contains no flashcards to study''], m)"
    by (simp add: startStudySession_def)
next
  assume "\<exists>errs. fst (startStudySession w now m) = Failure errs"
  then show "snd (startStudySession w now m) = m"
    by (auto dest: startStudySession_failure_unchanged)
next
  assume "currentSession (snd (startStudySession w now m)) \<noteq> currentSession m"
  then have "snd (startStudySession w now m) \<noteq> m" by auto
  from startStudySession_changed_success [OF this]
  show "\<exists>s. fst (startStudySession w now m) = Success s" by blast
qed

theorem startStudySession_failures_witness:
  "startStudySession JUndefined 7
     \<lparr> dataService = storage_DataService [sample_deck ''d1'', sample_deck ''d3''] [sample_card ''c'' ''d3''],
       currentSession = Some (new_StudySession ''d0'' [sample_card ''a'' ''d0''] 0) \<rparr>
   = (Failure [''Deck ID is required and must be a string''],
     \<lparr> dataService = storage_DataService [sample_deck ''d1'', sample_deck ''d3''] [sample_card ''c'' ''d3''],
       currentSession = Some (new_StudySession ''d0'' [sample_card ''a'' ''d0''] 0) \<rparr>)
   \<and> startStudySession (JString ''d2'') 7
     \<lparr> dataService = storage_DataService [sample_deck ''d1'', sample_deck ''d3''] [sample_card ''c'' ''d3''],
       currentSession = Some (new_StudySession ''d0'' [sample_card ''a'' ''d0''] 0) \<rparr>
   = (Failure [''Deck not found''],
     \<lparr> dataService = storage_DataService [sample_deck ''d1'', sample_deck ''d3''] [sample_card ''c'' ''d3''],
       currentSession = Some (new_StudySession ''d0'' [sample_card ''a'' ''d0''] 0) \<rparr>)
   \<and> startStudySession (JString ''d1'') 7
     \<lparr> dataService = storage_DataService [sample_deck ''d1'', sample_deck ''d3''] [sample_card ''c'' ''d3''],
       currentSession = Some (new_StudySession ''d0'' [sample_card ''a'' ''d0''] 0) \<rparr>
   = (Failure [''Deck contains no flashcards to study''],
     \<lparr> dataService = storage_DataService [sample_deck ''d1'', sample_deck ''d3''] [sample_card ''c'' ''d3''],
       currentSession = Some (new_StudySession ''d0'' [sample_card ''a'' ''d0''] 0) \<rparr>)
   \<and> fst (startStudySession (JString ''d3'') 7
     \<lparr> dataService = storage_DataService [sample_deck ''d1'', sample_deck ''d3''] [sample_card ''c'' ''d3''],
       currentSession = Some (new_StudySession ''d0'' [sample_card ''a'' ''d0''] 0) \<rparr>)
   = Success (new_StudySession ''d3'' [sample_card ''c'' ''d3''] 7)"
  using startStudySession_failures
     [of JUndefined 7
         "\<lparr> dataService = storage_DataService [sample_deck ''d1'', sample_deck ''d3''] [sample_card ''c'' ''d3''],
       currentSession = Some (new_StudySession ''d0'' [sample_card ''a'' ''d0''] 0) \<rparr>"
         "''d2''" "''d1''" "sample_deck ''d1''" "JString ''d2''"]
    startStudySession_failures
     [of JUndefined 7
         "\<lparr> dataService = storage_DataService [sample_deck ''d1'', sample_deck ''d3''] [sample_card ''c'' ''d3''],
       currentSession = Some (new_StudySession ''d0'' [sample_card ''a'' ''d0''] 0) \<rparr>"
         "''d2''" "''d1''" "sample_deck ''d1''" "JString ''d3''"]
  by (simp add: storage_DataService_def sample_deck_def sample_card_def startStudySession_def
        new_StudySession_def Let_def)

section \<open>Completing and ending through the manager\<close>

lemma start_one_card:
  assumes "d \<noteq> []" and "loadDeck (dataService m) d = Inr (Some deck)"
    and "loadFlashcardsForDeck (dataService m) d = Inr [c]"
  shows "startStudySession (JString d) t0 m
           = (Success (new_StudySession d [c] t0),
              m\<lparr> currentSession := Some (new_StudySession d [c] t0) \<rparr>)"
  using assms by (simp add: startStudySession_def Let_def)

lemma next_one_card:
  "nextFlashcard t1 (new_StudySession d [c] t0)
     = (False, (new_StudySession d [c] t0)
                 \<lparr> currentIndex := 1, reviewedCards := {0}, isComplete := True,
                   endTime := Some t1 \<rparr>)"
  by (simp add: nextFlashcard_def new_StudySession_def completeSession_def Let_def)

text \<open>
  Claim C6. The manager's \<open>completeSession()\<close> fails with \<open>No active study session\<close> when
  there is no current session. Otherwise it completes the session unless it is complete
  already, returns that session's summary and clears the current session, so
  \<open>hasActiveSession()\<close> is false afterwards. For a deck of one card: the start succeeds, the
  next call reports \<open>isComplete\<close> true and \<open>hasNext\<close> false, completing returns a summary
  with one reviewed card, and no session is active afterwards.
\<close>

theorem StudyManager_completeSession_clears:
  "(currentSession m = None \<longrightarrow>
      StudyManager_completeSession now m = (Failure [''No active study session''], m))
   \<and> (currentSession m = Some s \<longrightarrow>
        StudyManager_completeSession now m
          = (Success (getSessionSummary now (if isComplete s then s else completeSession now s)),
             m\<lparr> currentSession := None \<rparr>)
      \<and> \<not> hasActiveSession (snd (StudyManager_completeSession now m)))
   \<and> (d \<noteq> [] \<and> loadDeck (dataService m0) d = Inr (Some deck)
        \<and> loadFlashcardsForDeck (dataService m0) d = Inr [c] \<longrightarrow>
        (\<exists>s1. fst (startStudySession (JString d) t0 m0) = Success s1)
      \<and> fst (StudyManager_nextFlashcard t1 (snd (startStudySession (JString d) t0 m0)))
          = Success \<lparr> r_hasNext = False, r_isComplete = True \<rparr>
      \<and> (\<exists>sm. fst (StudyManager_completeSession t2
                      (snd (StudyManager_nextFlashcard t1 (snd (startStudySession (JString d) t0 m0)))))
                 = Success sm
              \<and> s_reviewedCards sm = 1 \<and> s_totalCards sm = 1 \<and> s_isComplete sm)
      \<and> \<not> hasActiveSession
            (snd (StudyManager_completeSession t2
                   (snd (StudyManager_nextFlashcard t1 (snd (startStudySession (JString d) t0 m0)))))))"
proof (intro conjI impI)
  assume "currentSession m = None"
  then show "StudyManager_completeSession now m = (Failure [''No active study session''], m)"
    by (simp add: StudyManager_completeSession_def)
next
  assume s: "currentSession m = Some s"
  then show "StudyManager_completeSession now m
          = (Success (getSessionSummary now (if isComplete s then s else completeSession now s)),
             m\<lparr> currentSession := None \<rparr>)"
    by (simp add: StudyManager_completeSession_def Let_def)
  from s show "\<not> hasActiveSession (snd (StudyManager_completeSession now m))"
    by (simp add: StudyManager_completeSession_def Let_def hasActiveSession_def)
next
  assume a: "d \<noteq> [] \<and> loadDeck (dataService m0) d = Inr (Some deck)
        \<and> loadFlashcardsForDeck (dataService m0) d = Inr [c]"
  let ?s0 = "new_StudySession d [c] t0"
  let ?s1 = "?s0\<lparr> currentIndex := 1, reviewedCards := {0}, isComplete := True,
                   endTime := Some t1 \<rparr>"
  from a have st: "startStudySession (JString d) t0 m0
                     = (Success ?s0, m0\<lparr> currentSession := Some ?s0 \<rparr>)"
    by (intro start_one_card) simp_all
  have nx: "StudyManager_nextFlashcard t1 (m0\<lparr> currentSession := Some ?s0 \<rparr>)
              = (Success \<lparr> r_hasNext = False, r_isComplete = True \<rparr>,
                 m0\<lparr> currentSession := Some ?s1 \<rparr>)"
    by (simp add: StudyManager_nextFlashcard_def next_one_card)
  have cp: "StudyManager_completeSession t2 (m0\<lparr> currentSession := Some ?s1 \<rparr>)
              = (Success (getSessionSummary t2 ?s1), m0\<lparr> currentSession := None \<rparr>)"
    by (simp add: StudyManager_completeSession_def Let_def)
  show "\<exists>s1. fst (startStudySession (JString d) t0 m0) = Success s1"
    by (simp add: st)
  show "fst (StudyManager_nextFlashcard t1 (snd (startStudySession (JString d) t0 m0)))
          = Success \<lparr> r_hasNext = False, r_isComplete = True \<rparr>"
    by (simp add: st nx)
  show "\<exists>sm. fst (StudyManager_completeSession t2
                      (snd (StudyManager_nextFlashcard t1 (snd (startStudySession (JString d) t0 m0)))))
                 = Success sm
              \<and> s_reviewedCards sm = 1 \<and> s_totalCards sm = 1 \<and> s_isComplete sm"
  proof -
    have "fst (StudyManager_completeSession t2
                 (snd (StudyManager_nextFlashcard t1 (snd (startStudySession (JString d) t0 m0)))))
            = Success (getSessionSummary t2 ?s1)"
      by (simp only: st nx cp fst_conv snd_conv)
    then show ?thesis
      by (simp add: getSessionSummary_def new_StudySession_def)
  qed
  show "\<not> hasActiveSession
            (snd (StudyManager_completeSession t2
                   (snd (StudyManager_nextFlashcard t1 (snd (startStudySession (JString d) t0 m0))))))"
    by (simp add: st nx cp hasActiveSession_def)
qed

theorem StudyManager_completeSession_clears_witness:
  "fst (StudyManager_completeSession 30 (new_StudyManager (storage_DataService [] [])))
     = Failure [''No active study session'']
   \<and> fst (StudyManager_completeSession 30
           \<lparr> dataService = storage_DataService [] [],
             currentSession = Some (new_StudySession ''d'' [sample_card ''a'' ''d'', sample_card ''b'' ''d''] 0) \<rparr>)
     = Success \<lparr> s_deckId = ''d'', s_totalCards = 2, s_reviewedCards = 2, duration = 0,
                 s_startTime = 0, s_endTime = Some 30, s_isComplete = True \<rparr>
   \<and> fst (StudyManager_nextFlashcard 10
        (snd (startStudySession (JString ''d1'') 0
          (new_StudyManager (storage_DataService [sample_deck ''d1''] [sample_card ''a'' ''d1'']))))) 
     = Success \<lparr> r_hasNext = False, r_isComplete = True \<rparr>
   \<and> \<not> hasActiveSession
        (snd (StudyManager_completeSession 20
          (snd (StudyManager_nextFlashcard 10
            (snd (startStudySession (JString ''d1'') 0
              (new_StudyManager (storage_DataService [sample_deck ''d1''] [sample_card ''a'' ''d1''])))))))) "
  using StudyManager_completeSession_clears
     [of "new_StudyManager (storage_DataService [] [])" 30
         "new_StudySession ''d'' [sample_card ''a'' ''d'', sample_card ''b'' ''d''] 0"
         "''d1''"
         "new_StudyManager (storage_DataService [sample_deck ''d1''] [sample_card ''a'' ''d1''])"
         "sample_deck ''d1''" "sample_card ''a'' ''d1''" 0 10 20]
    StudyManager_completeSession_clears
     [of "\<lparr> dataService = storage_DataService [] [],
             currentSession = Some (new_StudySession ''d'' [sample_card ''a'' ''d'', sample_card ''b'' ''d''] 0) \<rparr>" 30
         "new_StudySession ''d'' [sample_card ''a'' ''d'', sample_card ''b'' ''d''] 0"
         "''d1''"
         "new_StudyManager (storage_DataService [sample_deck ''d1''] [sample_card ''a'' ''d1''])"
         "sample_deck ''d1''" "sample_card ''a'' ''d1''" 0 10 20]
  by (simp add: new_StudyManager_def storage_DataService_def sample_deck_def sample_card_def
        new_StudySession_def getSessionSummary_def completeSession_def)

text \<open>
  Claim C7. The manager's \<open>endSession()\<close> fails with \<open>No active study session\<close> when there
  is no current session. Otherwise it returns the summary of the session as it stands,
  without completing it, and clears the current session: a session ended after k < N
  advances reports k reviewed cards out of N, \<open>isComplete\<close> false and no end time.
\<close>

theorem endSession_reports_as_is:
  "(currentSession m = None \<longrightarrow>
      endSession now m = (Failure [''No active study session''], m))
   \<and> (currentSession m = Some s \<longrightarrow>
        endSession now m = (Success (getSessionSummary now s), m\<lparr> currentSession := None \<rparr>)
      \<and> s_isComplete (getSessionSummary now s) = isComplete s
      \<and> s_reviewedCards (getSessionSummary now s) = card (reviewedCards s)
      \<and> s_endTime (getSessionSummary now s) = endTime s
      \<and> \<not> hasActiveSession (snd (endSession now m)))
   \<and> (length ts < length cards
        \<and> currentSession m' = Some (nextFlashcard_calls ts (new_StudySession d cards t0)) \<longrightarrow>
        (\<exists>sm. fst (endSession now m') = Success sm
             \<and> s_reviewedCards sm = length ts \<and> s_totalCards sm = length cards
             \<and> \<not> s_isComplete sm \<and> s_endTime sm = None)
      \<and> currentSession (snd (endSession now m')) = None)"
proof (intro conjI impI)
  assume "currentSession m = None"
  then show "endSession now m = (Failure [''No active study session''], m)"
    by (simp add: endSession_def)
next
  assume s: "currentSession m = Some s"
  then show "endSession now m = (Success (getSessionSummary now s), m\<lparr> currentSession := None \<rparr>)"
    by (simp add: endSession_def)
  show "s_isComplete (getSessionSummary now s) = isComplete s"
    and "s_reviewedCards (getSessionSummary now s) = card (reviewedCards s)"
    and "s_endTime (getSessionSummary now s) = endTime s"
    by (simp_all add: getSessionSummary_def)
  from s show "\<not> hasActiveSession (snd (endSession now m))"
    by (simp add: endSession_def hasActiveSession_def)
next
  assume a: "length ts < length cards
        \<and> currentSession m' = Some (nextFlashcard_calls ts (new_StudySession d cards t0))"
  then have st: "nextFlashcard_calls ts (new_StudySession d cards t0)
                   = (new_StudySession d cards t0)
                       \<lparr> currentIndex := of_nat (length ts),
                         reviewedCards := of_nat ` {0..<length ts} \<rparr>"
    by (intro calls_before_end) simp
  from a have cs: "currentSession m' = Some ((new_StudySession d cards t0)
                       \<lparr> currentIndex := of_nat (length ts),
                         reviewedCards := of_nat ` {0..<length ts} \<rparr>)"
    by (simp only: st)
  have "fst (endSession now m') = Success (getSessionSummary now ((new_StudySession d cards t0)
                       \<lparr> currentIndex := of_nat (length ts),
                         reviewedCards := of_nat ` {0..<length ts} \<rparr>))"
    by (simp add: endSession_def cs)
  then show "\<exists>sm. fst (endSession now m') = Success sm
             \<and> s_reviewedCards sm = length ts \<and> s_totalCards sm = length cards
             \<and> \<not> s_isComplete sm \<and> s_endTime sm = None"
    by (simp add: getSessionSummary_def card_all_indices new_StudySession_def)
  from a show "currentSession (snd (endSession now m')) = None"
    by (simp add: endSession_def)
qed

theorem endSession_reports_as_is_witness:
  "fst (endSession 30 (new_StudyManager (storage_DataService [] [])))
     = Failure [''No active study session'']
   \<and> fst (endSession 30
        \<lparr> dataService = storage_DataService [] [],
          currentSession = Some (nextFlashcard_calls [10, 20]
            (new_StudySession ''d'' [sample_card ''a'' ''d'', sample_card ''b'' ''d'', sample_card ''c'' ''d''] 0)) \<rparr>)
     = Success \<lparr> s_deckId = ''d'', s_totalCards = 3, s_reviewedCards = 2, duration = 0,
                 s_startTime = 0, s_endTime = None, s_isComplete = False \<rparr>"
  using endSession_reports_as_is
     [of "new_StudyManager (storage_DataService [] [])" 30
         "new_StudySession ''d'' [] 0" "[10, 20]"
         "[sample_card ''a'' ''d'', sample_card ''b'' ''d'', sample_card ''c'' ''d'']"
         "\<lparr> dataService = storage_DataService [] [],
          currentSession = Some (nextFlashcard_calls [10, 20]
            (new_StudySession ''d'' [sample_card ''a'' ''d'', sample_card ''b'' ''d'', sample_card ''c'' ''d''] 0)) \<rparr>"
         "''d''" 0]
    endSession_reports_as_is
     [of "\<lparr> dataService = storage_DataService [] [],
          currentSession = Some (nextFlashcard_calls [10, 20]
            (new_StudySession ''d'' [sample_card ''a'' ''d'', sample_card ''b'' ''d'', sample_card ''c'' ''d''] 0)) \<rparr>" 30
         "nextFlashcard_calls [10, 20]
            (new_StudySession ''d'' [sample_card ''a'' ''d'', sample_card ''b'' ''d'', sample_card ''c'' ''d''] 0)"
         "[]" "[sample_card ''a'' ''d'']"
         "new_StudyManager (storage_DataService [] [])" "''d''" 0]
  by (simp add: new_StudyManager_def new_StudySession_def getSessionSummary_def
        nextFlashcard_def Let_def)

section \<open>The session's cards are its own copy\<close>

lemma new_StudySession_obj_fresh:
  assumes "new_StudySession_obj d a now h = Some (obj, h')"
  shows "a < length h" and "o_flashcards obj = length h" and "h' = h @ [h ! a]"
  using assms by (auto simp add: new_StudySession_obj_def split: if_splits)

lemma array_mutate_other:
  "b < length h \<Longrightarrow> array_mutate b xs (h @ [ys]) ! length h = ys"
  by (simp add: array_mutate_def list_update_append nth_append)

text \<open>
  Claim C9. The constructor copies the array it is given into a new array that only the
  session object references. Whatever is then done in place to any array that existed before
  the construction (the array passed in among them), every later state of the session object
  still denotes a session over the cards as they were at construction, and
  \<open>getCurrentFlashcard()\<close>, \<open>getProgress()\<close> and \<open>getSessionSummary()\<close> answer as if nothing had
  been changed. No session operation replaces the card list, and the manager's reads of the
  current session do not consult the data service, so a later change of the store is not
  seen either. (The copy is of the array: the cards in it are the same references.)
\<close>

theorem session_cards_private_copy:
  "(new_StudySession_obj d a now h = Some (obj, h') \<and> b < length h
      \<and> o_flashcards obj' = o_flashcards obj \<longrightarrow>
        session_of h' obj = new_StudySession d (h ! a) now
      \<and> flashcards (session_of (array_mutate b xs h') obj') = h ! a
      \<and> session_of (array_mutate b xs h') obj' = session_of h' obj'
      \<and> getCurrentFlashcard (session_of (array_mutate b xs h') obj')
          = getCurrentFlashcard (session_of h' obj')
      \<and> getProgress (session_of (array_mutate b xs h') obj') = getProgress (session_of h' obj')
      \<and> getSessionSummary t (session_of (array_mutate b xs h') obj')
          = getSessionSummary t (session_of h' obj')
      \<and> array_mutate b xs h' ! b = xs)
   \<and> flashcards (run_ops ops (new_StudySession d cards now)) = cards
   \<and> StudyManager_getCurrentFlashcard (m\<lparr> dataService := ds' \<rparr>) = StudyManager_getCurrentFlashcard m
   \<and> getSessionProgress (m\<lparr> dataService := ds' \<rparr>) = getSessionProgress m
   \<and> StudyManager_getSessionSummary t (m\<lparr> dataService := ds' \<rparr>) = StudyManager_getSessionSummary t m"
proof (intro conjI impI)
  assume a: "new_StudySession_obj d a now h = Some (obj, h') \<and> b < length h
      \<and> o_flashcards obj' = o_flashcards obj"
  then have new: "new_StudySession_obj d a now h = Some (obj, h')" and b: "b < length h"
    and same: "o_flashcards obj' = o_flashcards obj" by simp_all
  note fresh = new_StudySession_obj_fresh [OF new]
  show "session_of h' obj = new_StudySession d (h ! a) now"
    using new by (auto simp add: new_StudySession_obj_def session_of_def new_StudySession_def
                       split: if_splits)
  have own: "array_mutate b xs h' ! o_flashcards obj' = h ! a"
    using array_mutate_other [OF b, of xs "h ! a"] fresh same by simp
  have own0: "h' ! o_flashcards obj' = h ! a"
    using fresh same by simp
  show "flashcards (session_of (array_mutate b xs h') obj') = h ! a"
    by (simp add: session_of_def own)
  show eq: "session_of (array_mutate b xs h') obj' = session_of h' obj'"
    by (simp add: session_of_def own own0)
  show "getCurrentFlashcard (session_of (array_mutate b xs h') obj')
          = getCurrentFlashcard (session_of h' obj')"
    and "getProgress (session_of (array_mutate b xs h') obj') = getProgress (session_of h' obj')"
    and "getSessionSummary t (session_of (array_mutate b xs h') obj')
          = getSessionSummary t (session_of h' obj')"
    by (simp_all only: eq)
  show "array_mutate b xs h' ! b = xs"
    using b fresh by (simp add: array_mutate_def)
next
  show "flashcards (run_ops ops (new_StudySession d cards now)) = cards"
    by (simp add: flashcards_run_ops) (simp add: new_StudySession_def)
next
  show "StudyManager_getCurrentFlashcard (m\<lparr> dataService := ds' \<rparr>) = StudyManager_getCurrentFlashcard m"
    by (simp add: StudyManager_getCurrentFlashcard_def)
  show "getSessionProgress (m\<lparr> dataService := ds' \<rparr>) = getSessionProgress m"
    by (simp add: getSessionProgress_def)
  show "StudyManager_getSessionSummary t (m\<lparr> dataService := ds' \<rparr>) = StudyManager_getSessionSummary t m"
    by (simp add: StudyManager_getSessionSummary_def)
qed

theorem session_cards_private_copy_witness:
  "new_StudySession_obj ''d'' 0 5 [[''a'', ''b'']]
     = Some (\<lparr> o_deckId = ''d'', o_flashcards = 1, o_currentIndex = 0, o_startTime = 5,
               o_endTime = None, o_isComplete = False, o_reviewedCards = {} \<rparr>,
             [[''a'', ''b''], [''a'', ''b'']])
   \<and> array_mutate 0 [''z''] [[''a'', ''b''], [''a'', ''b'']] = [[''z''], [''a'', ''b'']]
   \<and> getCurrentFlashcard (session_of (array_mutate 0 [''z''] [[''a'', ''b''], [''a'', ''b'']])
        \<lparr> o_deckId = ''d'', o_flashcards = 1, o_currentIndex = 1, o_startTime = 5,
          o_endTime = None, o_isComplete = False, o_reviewedCards = {0} \<rparr>) = Ref ''b''"
  using session_cards_private_copy
    [of "''d''" 0 5 "[[''a'', ''b'']]"
        "\<lparr> o_deckId = ''d'', o_flashcards = 1, o_currentIndex = 0, o_startTime = 5,
               o_endTime = None, o_isComplete = False, o_reviewedCards = {} \<rparr>"
        "[[''a'', ''b''], [''a'', ''b'']]" 0
        "\<lparr> o_deckId = ''d'', o_flashcards = 1, o_currentIndex = 1, o_startTime = 5,
          o_endTime = None, o_isComplete = False, o_reviewedCards = {0} \<rparr>"
        "[''z'']" 0 "[]" "[]" "storage_DataService [] []" "new_StudyManager (storage_DataService [] [])"]
  by (simp add: new_StudySession_obj_def array_mutate_def session_of_def getCurrentFlashcard_def
        array_get_def)

end
